theory Spec2Isabelle
  imports Complex_Main "HOL-Library.Log_Nat"
begin

section \<open>Inventory service: data model\<close>

text \<open>
  The embedding follows the class \<^verbatim>\<open>InventoryService\<close> of the inventory service. A
  quantity is a JavaScript \<^verbatim>\<open>number\<close>, an IEEE 754 double; the model covers the
  integer-valued ones, as \<^typ>\<open>int\<close>. Comparisons of doubles are exact; a sum or a
  difference is rounded to the nearest double, which \<open>js_add\<close> and \<open>js_sub\<close> below
  write out. A price is a \<^typ>\<open>rat\<close>. The wall-clock \<^verbatim>\<open>timestamp\<close> of an event is left
  out of the event record.

  Modelled from the spec: the fields of an inventory item and of the creation request
  (the schema and the DTO classes are not part of the sources at hand); the service
  reads \<^verbatim>\<open>productCode\<close>, \<^verbatim>\<open>name\<close> and \<^verbatim>\<open>quantity\<close>.
\<close>

record Inventory =
  productCode :: string
  name :: string
  description :: string
  quantity :: int
  price :: rat

text \<open>
  \<^verbatim>\<open>CreateInventoryDto\<close>: the product code is optional; \<^verbatim>\<open>!createDto.productCode\<close>
  holds for a missing code and for the empty string.
\<close>

record CreateInventoryDto =
  dto_productCode :: "string option"
  dto_name :: string
  dto_description :: string
  dto_quantity :: int
  dto_price :: rat

datatype InventoryEventType = STOCK_ADDED | STOCK_REDUCED

record StockUpdateEvent =
  eventType :: InventoryEventType
  ev_productCode :: string
  previousQuantity :: int
  newQuantity :: int
  productName :: string

datatype RabbitMQExchanges = INVENTORY

text \<open>
  Every \<^verbatim>\<open>throw\<close> of the service is a value: the two Nest exceptions, the plain
  \<^verbatim>\<open>Error\<close> of \<^verbatim>\<open>deductStock\<close>, the error that \<^verbatim>\<open>RabbitMQService.publish\<close>
  raises and \<^verbatim>\<open>publishStockUpdateEvent\<close> rethrows, and the duplicate-key rejection of
  the store.
\<close>

datatype error =
    NotFoundException string
  | ConflictException string
  | Error string
  | BrokerError string
  | DuplicateKeyError string

datatype log_entry = Log string string | LogError string string

record message =
  exchange :: RabbitMQExchanges
  routingKey :: string
  payload :: StockUpdateEvent

text \<open>
  The state the service acts on: the inventory collection behind
  \<^verbatim>\<open>InventoryRepository\<close>, the messages accepted by the broker, the lines written to
  the log sink, and the number of values already drawn from \<^verbatim>\<open>Math.random\<close>.
\<close>

record world =
  store :: "string \<rightharpoonup> Inventory"
  published :: "message list"
  logs :: "log_entry list"
  draws :: nat

text \<open>
  \<^verbatim>\<open>RabbitMQService.publish\<close> is not part of the sources at hand; its outcome is a
  parameter: \<open>None\<close> when the broker accepts the message, \<open>Some msg\<close> when the call
  throws an error with message \<open>msg\<close>.
\<close>

type_synonym broker = "RabbitMQExchanges \<Rightarrow> string \<Rightarrow> StockUpdateEvent \<Rightarrow> string option"

section \<open>Strings and numbers\<close>

definition digit_char :: "nat \<Rightarrow> char" where
  "digit_char d = ''0123456789'' ! d"

text \<open>\<^verbatim>\<open>Number.prototype.toString\<close> on a non-negative integer: its decimal digits.\<close>

fun toString :: "nat \<Rightarrow> string" where
  "toString n = (if n < 10 then [digit_char n] else toString (n div 10) @ [digit_char (n mod 10)])"

declare toString.simps [simp del]

text \<open>
  An integer inside a template literal: a minus sign in front of a negative value. The
  source writes the digits in full below 10 ^ 21 and an exponent from there on.
\<close>

definition showInt :: "int \<Rightarrow> string" where
  "showInt i = (if i < 0 then ''-'' @ toString (nat (- i)) else toString (nat i))"

text \<open>\<^verbatim>\<open>String.prototype.padStart\<close>: the string is never shortened.\<close>

definition padStart :: "nat \<Rightarrow> char \<Rightarrow> string \<Rightarrow> string" where
  "padStart n c s = replicate (n - length s) c @ s"

text \<open>
  Rounding of an integer to the nearest double, ties to the even significand. Every
  integer of magnitude at most 2 ^ 53 = 9007199254740992 is a double. A larger one with
  \<open>n\<close> binary digits lies between two doubles that are 2 ^ (n - 53) apart. A result of
  magnitude 2 ^ 1024 or more stands for what the source holds as \<^verbatim>\<open>Infinity\<close>; the
  model does not follow the source beyond it.
\<close>

definition js_round :: "int \<Rightarrow> int" where
  "js_round x =
     (if \<bar>x\<bar> \<le> 9007199254740992 then x
      else
        (let a = \<bar>x\<bar>;
             u = 2 ^ nat (bitlen a - 53);
             m = a div u;
             r = a mod u;
             m' = (if 2 * r < u \<or> (2 * r = u \<and> even m) then m else m + 1)
         in sgn x * (m' * u)))"

text \<open>The operators \<^verbatim>\<open>+\<close> and \<^verbatim>\<open>-\<close> on two numbers.\<close>

definition js_add :: "int \<Rightarrow> int \<Rightarrow> int" where
  "js_add a b = js_round (a + b)"

definition js_sub :: "int \<Rightarrow> int \<Rightarrow> int" where
  "js_sub a b = js_round (a - b)"

definition lower_char :: "char \<Rightarrow> char" where
  "lower_char c =
     (let k = (of_char c :: nat) in if 65 \<le> k \<and> k \<le> 90 then char_of (k + 32) else c)"

definition toLowerCase :: "string \<Rightarrow> string" where
  "toLowerCase s = map lower_char s"

text \<open>
  Modelled from the spec: the string values of the enum \<^verbatim>\<open>InventoryEventType\<close>
  (\<^verbatim>\<open>events/inventory.events.ts\<close> is not part of the sources at hand), named
  \<^verbatim>\<open>STOCK_ADDED\<close> and \<^verbatim>\<open>STOCK_REDUCED\<close> in the data model.
\<close>

fun eventTypeValue :: "InventoryEventType \<Rightarrow> string" where
  "eventTypeValue STOCK_ADDED = ''STOCK_ADDED''"
| "eventTypeValue STOCK_REDUCED = ''STOCK_REDUCED''"

section \<open>The repository\<close>

text \<open>
  Modelled from the spec: \<^verbatim>\<open>InventoryRepository\<close> (\<^verbatim>\<open>inventory.repository.ts\<close> is
  not part of the sources at hand), a key-value repository with lookup by product code,
  insert-if-absent and update-by-key, the uniqueness of the product code being enforced
  by the store. \<^verbatim>\<open>findItemById\<close> yields the document or \<^verbatim>\<open>null\<close>.
\<close>

definition findItemById :: "(string \<rightharpoonup> Inventory) \<Rightarrow> string \<Rightarrow> Inventory option" where
  "findItemById st code = st code"

text \<open>
  Modelled from the spec: \<^verbatim>\<open>InventoryRepository.createItem\<close>, insert-if-absent of a
  document carrying the fields of the request under the given product code.
\<close>

definition repo_createItem ::
  "(string \<rightharpoonup> Inventory) \<Rightarrow> string \<Rightarrow> CreateInventoryDto \<Rightarrow> error + (Inventory \<times> (string \<rightharpoonup> Inventory))" where
  "repo_createItem st code createDto =
     (case st code of
        Some _ \<Rightarrow> Inl (DuplicateKeyError code)
      | None \<Rightarrow>
          (let doc = \<lparr>productCode = code, name = dto_name createDto,
                      description = dto_description createDto,
                      quantity = dto_quantity createDto, price = dto_price createDto\<rparr>
           in Inr (doc, st(code \<mapsto> doc))))"

text \<open>
  Modelled from the spec: \<^verbatim>\<open>InventoryRepository.updateStock\<close>, update-by-key that
  assigns the quantity and yields the updated document (the test
  \<^verbatim>\<open>should update stock quantity\<close> reads the new quantity from the reply), or
  \<^verbatim>\<open>null\<close> when no document has the key.
\<close>

definition repo_updateStock ::
  "(string \<rightharpoonup> Inventory) \<Rightarrow> string \<Rightarrow> int \<Rightarrow> Inventory option \<times> (string \<rightharpoonup> Inventory)" where
  "repo_updateStock st code q =
     (case st code of
        None \<Rightarrow> (None, st)
      | Some doc \<Rightarrow> (Some (doc\<lparr>quantity := q\<rparr>), st(code \<mapsto> doc\<lparr>quantity := q\<rparr>)))"

section \<open>The service\<close>

definition logger_log :: "string \<Rightarrow> string \<Rightarrow> world \<Rightarrow> world" where
  "logger_log msg ctx w = w\<lparr>logs := logs w @ [Log msg ctx]\<rparr>"

definition logger_error :: "string \<Rightarrow> string \<Rightarrow> world \<Rightarrow> world" where
  "logger_error msg ctx w = w\<lparr>logs := logs w @ [LogError msg ctx]\<rparr>"

text \<open>\<^verbatim>\<open>generateProductCode\<close>, given the value of \<^verbatim>\<open>Math.floor(Math.random() * 1000000000)\<close>.\<close>

definition generateProductCode :: "nat \<Rightarrow> string" where
  "generateProductCode r = ''INV-'' @ padStart 9 (CHR ''0'') (toString r)"

text \<open>
  \<^verbatim>\<open>generateUniqueProductCode\<close>: the loop draws until the code is not in the store.
  The random source is the sequence \<open>rnd\<close> of the values
  \<^verbatim>\<open>Math.floor(Math.random() * 1000000000)\<close>; the result is the code and the position
  of the next draw. The loop need not end: a source that only yields stored codes keeps
  it running, which is the value \<open>None\<close>.
\<close>

partial_function (option) generateUniqueProductCode ::
  "(nat \<Rightarrow> nat) \<Rightarrow> (string \<rightharpoonup> Inventory) \<Rightarrow> nat \<Rightarrow> (string \<times> nat) option" where
  "generateUniqueProductCode rnd st i =
     (let code = generateProductCode (rnd i) in
      if findItemById st code = None then Some (code, Suc i)
      else generateUniqueProductCode rnd st (Suc i))"

declare generateUniqueProductCode.simps [code]

text \<open>The routing key of a stock event, \<^verbatim>\<open>inventory.stock.${event.eventType.toLowerCase()}\<close>.\<close>

definition stockRoutingKey :: "StockUpdateEvent \<Rightarrow> string" where
  "stockRoutingKey event = ''inventory.stock.'' @ toLowerCase (eventTypeValue (eventType event))"

text \<open>
  \<^verbatim>\<open>publishStockUpdateEvent\<close>: on success the message is with the broker and a line is
  logged; on failure the error is logged and rethrown.
\<close>

definition publishStockUpdateEvent :: "broker \<Rightarrow> world \<Rightarrow> StockUpdateEvent \<Rightarrow> (error + unit) \<times> world" where
  "publishStockUpdateEvent brk w event =
     (let key = stockRoutingKey event in
      case brk INVENTORY key event of
        None \<Rightarrow>
          (Inr (),
           logger_log (''Published '' @ eventTypeValue (eventType event) @ '' event for product ''
                         @ ev_productCode event) ''InventoryService''
             (w\<lparr>published := published w
                   @ [\<lparr>exchange = INVENTORY, routingKey = key, payload = event\<rparr>]\<rparr>))
      | Some msg \<Rightarrow>
          (Inl (BrokerError msg),
           logger_error (''Failed to publish stock update event: '' @ msg) ''InventoryService'' w))"

text \<open>
  Lines 96 to 110 of \<^verbatim>\<open>createItem\<close>: the store write, the \<^verbatim>\<open>STOCK_ADDED\<close> event with
  previous quantity 0, the log line, the saved item.
\<close>

definition createItem_save :: "broker \<Rightarrow> world \<Rightarrow> string \<Rightarrow> CreateInventoryDto \<Rightarrow> (error + Inventory) \<times> world" where
  "createItem_save brk w code createDto =
     (case repo_createItem (store w) code createDto of
        Inl e \<Rightarrow> (Inl e, w)
      | Inr (savedItem, st') \<Rightarrow>
          (let stockEvent = \<lparr>eventType = STOCK_ADDED, ev_productCode = productCode savedItem,
                             previousQuantity = 0, newQuantity = quantity savedItem,
                             productName = name savedItem\<rparr>
           in case publishStockUpdateEvent brk (w\<lparr>store := st'\<rparr>) stockEvent of
                (Inl e, w') \<Rightarrow> (Inl e, w')
              | (Inr _, w') \<Rightarrow>
                  (Inr savedItem, logger_log ''Item created'' (productCode savedItem) w')))"

text \<open>
  \<^verbatim>\<open>createItem\<close>. The result is \<open>None\<close> exactly when the code generation loop does
  not end.
\<close>

definition createItem ::
  "broker \<Rightarrow> (nat \<Rightarrow> nat) \<Rightarrow> world \<Rightarrow> CreateInventoryDto \<Rightarrow> ((error + Inventory) \<times> world) option" where
  "createItem brk rnd w createDto =
     (if dto_productCode createDto = None \<or> dto_productCode createDto = Some []
      then (case generateUniqueProductCode rnd (store w) (draws w) of
              None \<Rightarrow> None
            | Some (code, i) \<Rightarrow> Some (createItem_save brk (w\<lparr>draws := i\<rparr>) code createDto))
      else (let code = the (dto_productCode createDto) in
            case findItemById (store w) code of
              Some existingItem \<Rightarrow>
                Some (Inl (ConflictException ''Item with this product code already exists''), w)
            | None \<Rightarrow> Some (createItem_save brk w code createDto)))"

text \<open>\<^verbatim>\<open>updateStock\<close>.\<close>

definition updateStock :: "broker \<Rightarrow> world \<Rightarrow> string \<Rightarrow> int \<Rightarrow> (error + Inventory option) \<times> world" where
  "updateStock brk w code q =
     (case findItemById (store w) code of
        None \<Rightarrow> (Inl (NotFoundException ''Item not found''), w)
      | Some item \<Rightarrow>
          (let previous = quantity item;
               (updatedItem, st') = repo_updateStock (store w) code q;
               evType = (if q > previous then STOCK_ADDED else STOCK_REDUCED);
               stockEvent = \<lparr>eventType = evType, ev_productCode = code,
                             previousQuantity = previous, newQuantity = q,
                             productName = name item\<rparr>
           in case publishStockUpdateEvent brk (w\<lparr>store := st'\<rparr>) stockEvent of
                (Inl e, w') \<Rightarrow> (Inl e, w')
              | (Inr _, w') \<Rightarrow>
                  (Inr updatedItem,
                   logger_log (''Stock updated for item '' @ name item @ ''. New stock: '' @ showInt q)
                     ''InventoryService'' w')))"

text \<open>\<^verbatim>\<open>getItem\<close>.\<close>

definition getItem :: "world \<Rightarrow> string \<Rightarrow> (error + Inventory) \<times> world" where
  "getItem w code =
     (case findItemById (store w) code of
        None \<Rightarrow> (Inl (NotFoundException ''Item not found''), w)
      | Some item \<Rightarrow>
          (Inr item,
           logger_log (''Fetched stock for item '' @ name item @ '': '' @ productCode item)
             ''InventoryService'' w))"

record StockCheck =
  available :: bool
  message_text :: string
  currentStock :: int

text \<open>\<^verbatim>\<open>checkStock\<close>.\<close>

definition checkStock :: "world \<Rightarrow> string \<Rightarrow> int \<Rightarrow> StockCheck \<times> world" where
  "checkStock w code q =
     (case findItemById (store w) code of
        None \<Rightarrow>
          (\<lparr>available = False, message_text = ''Item not found in inventory'', currentStock = 0\<rparr>,
           logger_log (''Stock check failed: Product '' @ code @ '' not found'') ''InventoryService'' w)
      | Some inventory \<Rightarrow>
          (let avail = (quantity inventory \<ge> q) in
           (\<lparr>available = avail,
             message_text =
               (if avail then ''Stock available''
                else ''Insufficient stock. Requested: '' @ showInt q @ '', Available: ''
                       @ showInt (quantity inventory)),
             currentStock = quantity inventory\<rparr>, w)))"

text \<open>
  \<^verbatim>\<open>deductStock\<close>. The item comes from \<^verbatim>\<open>getItem\<close>, which throws when it is absent,
  so the second absence test of the source is never taken. The quantity is decremented
  with \<^verbatim>\<open>-=\<close>, a difference of two numbers; \<^verbatim>\<open>inventory.save()\<close> writes the decremented
  document back under the key it was read from; the event takes as previous quantity the
  sum of the new quantity and the deducted one.
\<close>

definition deductStock :: "broker \<Rightarrow> world \<Rightarrow> string \<Rightarrow> int \<Rightarrow> (error + unit) \<times> world" where
  "deductStock brk w code q =
     (case getItem w code of
        (Inl e, w1) \<Rightarrow> (Inl e, w1)
      | (Inr inventory, w1) \<Rightarrow>
          if quantity inventory < q
          then (Inl (Error (''Insufficient stock for '' @ name inventory @ ''. Requested: ''
                             @ showInt q @ '', Available: '' @ showInt (quantity inventory))), w1)
          else
            (let inventory' = inventory\<lparr>quantity := js_sub (quantity inventory) q\<rparr>;
                 w2 = w1\<lparr>store := (store w1)(code \<mapsto> inventory')\<rparr>;
                 stockEvent = \<lparr>eventType = STOCK_REDUCED, ev_productCode = code,
                               previousQuantity = js_add (quantity inventory') q,
                               newQuantity = quantity inventory',
                               productName = name inventory'\<rparr>
             in publishStockUpdateEvent brk w2 stockEvent))"

section \<open>Sequences of inventory requests\<close>

datatype operation =
    CreateItem CreateInventoryDto
  | UpdateStock string int
  | DeductStock string int

text \<open>
  Modelled from the spec: the validation of request payloads in front of the service (the
  DTO classes and the controllers are not part of the sources at hand). A request to
  create an item with a negative quantity or price, or to set the stock to a negative
  quantity, is rejected before the service is called (the tests
  \<^verbatim>\<open>should reject invalid inventory data\<close> and
  \<^verbatim>\<open>should reject negative stock quantities\<close> expect status 400). The specification
  asks for a strictly positive quantity on a stock update; the model rejects only the
  negative ones, which both readings reject. A deduction arrives over the broker, and
  nothing is asked of it.
\<close>

fun validated :: "operation \<Rightarrow> bool" where
  "validated (CreateItem createDto) = (0 \<le> dto_quantity createDto \<and> 0 \<le> dto_price createDto)"
| "validated (UpdateStock code q) = (0 \<le> q)"
| "validated (DeductStock code q) = True"

text \<open>
  One request: a rejected one leaves the state as it is; an accepted one is the call of
  the service, of which only the state it leaves behind is kept, whether it returns or
  throws. The result is \<open>None\<close> when the call does not return.
\<close>

definition perform :: "broker \<Rightarrow> (nat \<Rightarrow> nat) \<Rightarrow> world \<Rightarrow> operation \<Rightarrow> world option" where
  "perform brk rnd w oper =
     (if \<not> validated oper then Some w
      else case oper of
             CreateItem createDto \<Rightarrow> map_option snd (createItem brk rnd w createDto)
           | UpdateStock code q \<Rightarrow> Some (snd (updateStock brk w code q))
           | DeductStock code q \<Rightarrow> Some (snd (deductStock brk w code q)))"

fun run_ops :: "broker \<Rightarrow> (nat \<Rightarrow> nat) \<Rightarrow> world \<Rightarrow> operation list \<Rightarrow> world option" where
  "run_ops brk rnd w [] = Some w"
| "run_ops brk rnd w (oper # rest) =
     (case perform brk rnd w oper of None \<Rightarrow> None | Some w' \<Rightarrow> run_ops brk rnd w' rest)"

text \<open>No item of the store has a negative quantity.\<close>

definition stock_nonneg :: "(string \<rightharpoonup> Inventory) \<Rightarrow> bool" where
  "stock_nonneg st = (\<forall>code item. st code = Some item \<longrightarrow> 0 \<le> quantity item)"

section \<open>Order choreography\<close>

text \<open>
  Modelled from the spec: \<^verbatim>\<open>OrderService.createOrder\<close> and the order data model
  (\<^verbatim>\<open>order-service/src/orders\<close> is not part of the sources at hand; only its tests
  are). The transition logic is the one of section 4.4 of the specification: validate,
  stock-check RPC, total price, stock-deduct RPC, persist with status
  \<^verbatim>\<open>CONFIRMED\<close>. The creation time of an order is left out.
\<close>

datatype OrderStatus = PENDING | CONFIRMED | FAILED

record Order =
  order_id :: nat
  order_productCode :: string
  order_quantity :: int
  totalPrice :: rat
  status :: OrderStatus

datatype order_error =
    ValidationError
  | UpstreamUnavailable
  | InsufficientStock string
  | NotFound
  | TimedOut
  | InternalError

text \<open>What a caller of \<^verbatim>\<open>publishWithResponse\<close> gets: a reply, a timeout, or no connection.\<close>

datatype 'a rpc = Reply 'a | RpcTimedOut | RpcNotConnected

record StockCheckReply =
  chk_available :: bool
  chk_message :: string
  chk_currentStock :: int
  chk_unitPrice :: rat

datatype DeductReply = DeductOk | DeductNotFound | DeductInsufficient string

text \<open>
  The collaborators of the order service are parameters: the outcome of the two RPCs
  and whether the order store accepts the write.
\<close>

record upstream =
  check_rpc :: "string \<Rightarrow> int \<Rightarrow> StockCheckReply rpc"
  deduct_rpc :: "string \<Rightarrow> int \<Rightarrow> DeductReply rpc"
  persist_ok :: "Order \<Rightarrow> bool"

datatype rpc_call = StockCheckCall string int | StockDeductCall string int

text \<open>The persisted orders and the calls the broker client has received so far.\<close>

record order_state =
  orders :: "Order list"
  rpc_calls :: "rpc_call list"

text \<open>
  Modelled from the spec: \<^verbatim>\<open>createOrder(productCode, quantity)\<close>, steps 1 to 6 of
  section 4.4. A request that fails validation issues no RPC; a failed stock check or
  deduction persists nothing; the order is persisted with status \<^verbatim>\<open>CONFIRMED\<close> and
  the identifier the store assigns.
\<close>

definition createOrder ::
  "upstream \<Rightarrow> order_state \<Rightarrow> string \<Rightarrow> int \<Rightarrow> (order_error + Order) \<times> order_state" where
  "createOrder up st code qty =
     (if qty \<le> 0 \<or> code = [] then (Inl ValidationError, st)
      else
        (let st1 = st\<lparr>rpc_calls := rpc_calls st @ [StockCheckCall code qty]\<rparr> in
         case check_rpc up code qty of
           RpcTimedOut \<Rightarrow> (Inl UpstreamUnavailable, st1)
         | RpcNotConnected \<Rightarrow> (Inl UpstreamUnavailable, st1)
         | Reply chk \<Rightarrow>
             if \<not> chk_available chk then (Inl (InsufficientStock (chk_message chk)), st1)
             else
               (let total = of_int qty * chk_unitPrice chk;
                    st2 = st1\<lparr>rpc_calls := rpc_calls st1 @ [StockDeductCall code qty]\<rparr>
                in case deduct_rpc up code qty of
                     RpcTimedOut \<Rightarrow> (Inl TimedOut, st2)
                   | RpcNotConnected \<Rightarrow> (Inl UpstreamUnavailable, st2)
                   | Reply DeductNotFound \<Rightarrow> (Inl NotFound, st2)
                   | Reply (DeductInsufficient m) \<Rightarrow> (Inl (InsufficientStock m), st2)
                   | Reply DeductOk \<Rightarrow>
                       (let order = \<lparr>order_id = length (orders st2), order_productCode = code,
                                      order_quantity = qty, totalPrice = total,
                                      status = CONFIRMED\<rparr>
                        in if persist_ok up order
                           then (Inr order, st2\<lparr>orders := orders st2 @ [order]\<rparr>)
                           else (Inl InternalError, st2)))))"

section \<open>Request and response over the broker\<close>

text \<open>
  Modelled from the spec: the pending-waiter table of
  \<^verbatim>\<open>RabbitMQService.publishWithResponse\<close> (\<^verbatim>\<open>rabbitmq.service.ts\<close> is not part of
  the sources at hand), after the algorithm of section 4.2 of the specification. A request
  takes a fresh correlation id and registers a waiter under it; a reply tagged with a
  registered id resolves the caller with its payload and removes the waiter; the expiry of
  the timeout of a registered id rejects the caller with a timeout and removes the
  waiter; a reply or an expiry for an id that is not registered changes nothing. The
  steps are atomic, as they are on the event loop of the runtime.
\<close>

datatype 'p settlement = Resolved 'p | Rejected_TimedOut

record 'p rpc_client =
  waiters :: "nat list"
  next_correlation :: nat
  delivered :: "(nat \<times> 'p settlement) list"

datatype 'p client_event =
    PublishWithResponse
  | ReplyArrives nat 'p
  | TimeoutExpires nat

definition client_init :: "'p rpc_client" where
  "client_init = \<lparr>waiters = [], next_correlation = 0, delivered = []\<rparr>"

text \<open>
  Modelled from the spec: one step of the waiter table, for a call of
  \<^verbatim>\<open>publishWithResponse\<close>, an arriving reply, or an expiring timeout.
\<close>

fun client_step :: "'p rpc_client \<Rightarrow> 'p client_event \<Rightarrow> 'p rpc_client" where
  "client_step c PublishWithResponse =
     c\<lparr>waiters := waiters c @ [next_correlation c], next_correlation := Suc (next_correlation c)\<rparr>"
| "client_step c (ReplyArrives cid p) =
     (if cid \<in> set (waiters c)
      then c\<lparr>waiters := removeAll cid (waiters c), delivered := delivered c @ [(cid, Resolved p)]\<rparr>
      else c)"
| "client_step c (TimeoutExpires cid) =
     (if cid \<in> set (waiters c)
      then c\<lparr>waiters := removeAll cid (waiters c), delivered := delivered c @ [(cid, Rejected_TimedOut)]\<rparr>
      else c)"

definition client_run :: "'p client_event list \<Rightarrow> 'p rpc_client" where
  "client_run evs = foldl client_step client_init evs"

text \<open>How many times the caller of correlation id \<open>cid\<close> has been settled.\<close>

definition settlements :: "'p rpc_client \<Rightarrow> nat \<Rightarrow> nat" where
  "settlements c cid = length (filter (\<lambda>d. fst d = cid) (delivered c))"

text \<open>
  The consistency of the waiter table: no correlation id is registered twice, no caller
  is settled twice, no settled caller is still registered, and every id handed out so far
  is either registered or settled.
\<close>

definition client_inv :: "'p rpc_client \<Rightarrow> bool" where
  "client_inv c \<longleftrightarrow>
     distinct (waiters c) \<and> distinct (map fst (delivered c)) \<and>
     set (waiters c) \<inter> fst ` set (delivered c) = {} \<and>
     set (waiters c) \<union> fst ` set (delivered c) = {..<next_correlation c}"

section \<open>Example data\<close>

definition widget :: Inventory where
  "widget = \<lparr>productCode = ''PROD-1'', name = ''Widget'', description = ''A widget'',
             quantity = 100, price = 100\<rparr>"

definition shop :: world where
  "shop = \<lparr>store = [''PROD-1'' \<mapsto> widget], published = [], logs = [], draws = 0\<rparr>"



definition broker_up :: broker where
  "broker_up ex key event = None"

definition broker_down :: broker where
  "broker_down ex key event = Some ''Channel closed''"

definition test_product :: CreateInventoryDto where
  "test_product = \<lparr>dto_productCode = None, dto_name = ''Test Product'',
                   dto_description = ''Test Description'', dto_quantity = 100,
                   dto_price = 2999 / 100\<rparr>"

text \<open>
  A random source whose first draw is 1, the second 2, and so on, starting over before
  the bound of the generator is reached.
\<close>

definition counting :: "nat \<Rightarrow> nat" where
  "counting i = Suc (i mod 999999999)"

text \<open>An inventory peer that has stock at a unit price of 100, and an order store that accepts.\<close>

definition in_stock :: StockCheckReply where
  "in_stock = \<lparr>chk_available = True, chk_message = ''Stock available'',
               chk_currentStock = 100, chk_unitPrice = 100\<rparr>"

definition check_in_stock :: "string \<Rightarrow> int \<Rightarrow> StockCheckReply rpc" where
  "check_in_stock code qty = Reply in_stock"

definition deduct_succeeds :: "string \<Rightarrow> int \<Rightarrow> DeductReply rpc" where
  "deduct_succeeds code qty = Reply DeductOk"

definition store_accepts :: "Order \<Rightarrow> bool" where
  "store_accepts order = True"

definition healthy :: upstream where
  "healthy = \<lparr>check_rpc = check_in_stock, deduct_rpc = deduct_succeeds,
              persist_ok = store_accepts\<rparr>"

definition no_orders :: order_state where
  "no_orders = \<lparr>orders = [], rpc_calls = []\<rparr>"

text \<open>
  Two requests; the first times out, its reply arrives late, the second is answered.
\<close>

definition late_reply_run :: "string client_event list" where
  "late_reply_run =
     [PublishWithResponse, PublishWithResponse, TimeoutExpires 0,
      ReplyArrives 0 ''late'', ReplyArrives 1 ''ok'']"

section \<open>Facts about the helpers\<close>




text \<open>
  Rounding leaves the integers up to 2 ^ 53 as they are and keeps the sign; at
  2 ^ 53 + 1, halfway between two doubles, it goes to the even one.
\<close>

lemma js_round_exact: "\<bar>x\<bar> \<le> 9007199254740992 \<Longrightarrow> js_round x = x"
  by (simp add: js_round_def)

lemma js_round_nonneg: "0 \<le> x \<Longrightarrow> 0 \<le> js_round x"
proof -
  assume x: "0 \<le> x"
  have u: "(0::int) < 2 ^ nat (bitlen \<bar>x\<bar> - 53)" by simp
  have m: "0 \<le> \<bar>x\<bar> div 2 ^ nat (bitlen \<bar>x\<bar> - 53)"
    by (rule pos_imp_zdiv_nonneg_iff[THEN iffD2, OF u]) simp
  from x have s: "0 \<le> sgn x" by (simp add: sgn_if)
  show ?thesis
    unfolding js_round_def Let_def
    using x s m by (auto intro!: mult_nonneg_nonneg)
qed


lemma publish_store: "store (snd (publishStockUpdateEvent brk w ev)) = store w"
  by (simp add: publishStockUpdateEvent_def Let_def logger_log_def logger_error_def
           split: option.splits)

lemma publish_accepted:
  "brk INVENTORY (stockRoutingKey ev) ev = None \<Longrightarrow>
     publishStockUpdateEvent brk w ev = (res, w') \<Longrightarrow>
     res = Inr () \<and> store w' = store w \<and>
     published w' = published w @
       [\<lparr>exchange = INVENTORY, routingKey = stockRoutingKey ev, payload = ev\<rparr>]"
  by (auto simp add: publishStockUpdateEvent_def Let_def logger_log_def)

lemma publish_refused:
  "brk INVENTORY (stockRoutingKey ev) ev = Some m \<Longrightarrow>
     publishStockUpdateEvent brk w ev = (res, w') \<Longrightarrow>
     res = Inl (BrokerError m) \<and> store w' = store w \<and> published w' = published w \<and>
     logs w' = logs w @
       [LogError (''Failed to publish stock update event: '' @ m) ''InventoryService'']"
  by (auto simp add: publishStockUpdateEvent_def Let_def logger_error_def)

section \<open>Stock check\<close>

text \<open>
  C4. \<^verbatim>\<open>checkStock(productCode, quantity)\<close>: when no item has the product code the
  reply is not available, with the message \<^verbatim>\<open>Item not found in inventory\<close>; when an
  item has it, the reply is available exactly when the requested quantity is at most the
  quantity of the item, and its current stock is that quantity. In both cases the
  inventory store is the one before the call.
\<close>

theorem checkStock_reply:
  "(store w code = None \<longrightarrow>
      available (fst (checkStock w code q)) = False \<and>
      message_text (fst (checkStock w code q)) = ''Item not found in inventory'') \<and>
   (\<forall>item. store w code = Some item \<longrightarrow>
      available (fst (checkStock w code q)) = (q \<le> quantity item) \<and>
      currentStock (fst (checkStock w code q)) = quantity item) \<and>
   store (snd (checkStock w code q)) = store w"
  by (simp add: checkStock_def findItemById_def logger_log_def Let_def split: option.splits)

theorem checkStock_reply_witness:
  "store shop ''PROD-9'' = None \<and>
   store shop ''PROD-1'' = Some widget \<and>
   available (fst (checkStock shop ''PROD-9'' 2)) = False \<and>
   message_text (fst (checkStock shop ''PROD-9'' 2)) = ''Item not found in inventory'' \<and>
   available (fst (checkStock shop ''PROD-1'' 2)) = True \<and>
   available (fst (checkStock shop ''PROD-1'' 101)) = False \<and>
   currentStock (fst (checkStock shop ''PROD-1'' 2)) = 100 \<and>
   store (snd (checkStock shop ''PROD-9'' 2)) = store shop"
  using checkStock_reply [of shop "''PROD-9''" 2] checkStock_reply [of shop "''PROD-1''" 2]
    checkStock_reply [of shop "''PROD-1''" 101]
  by (simp add: shop_def widget_def)

section \<open>Stock deduction\<close>





section \<open>Product codes\<close>

lemma length_toString: "0 < k \<Longrightarrow> n < 10 ^ k \<Longrightarrow> length (toString n) \<le> k"
proof (induction n arbitrary: k rule: toString.induct)
  case (1 n)
  show ?case
  proof (cases "n < 10")
    case True
    then show ?thesis using 1(2) by (subst toString.simps) simp
  next
    case False
    obtain k' where k: "k = Suc k'" using 1(2) by (cases k) auto
    have pos: "0 < k'"
    proof (rule ccontr)
      assume "\<not> 0 < k'"
      then have "k = 1" using k by simp
      with 1(3) False show False by simp
    qed
    have "n < 10 * 10 ^ k'" using 1(3) k by simp
    then have "n div 10 < 10 ^ k'" by (simp add: less_mult_imp_div_less mult.commute)
    from 1(1)[OF False pos this] have "length (toString (n div 10)) \<le> k'" .
    then show ?thesis using False k by (subst toString.simps) simp
  qed
qed

lemma digit_char_digit: "d < 10 \<Longrightarrow> digit_char d \<in> set ''0123456789''"
  unfolding digit_char_def by (rule nth_mem) simp

lemma toString_digits: "set (toString n) \<subseteq> set ''0123456789''"
proof (induction n rule: toString.induct)
  case (1 n)
  show ?case
  proof (cases "n < 10")
    case True
    then show ?thesis using digit_char_digit[of n] by (subst toString.simps) simp
  next
    case False
    have "digit_char (n mod 10) \<in> set ''0123456789''" by (rule digit_char_digit) simp
    with 1[OF False] False show ?thesis by (subst toString.simps) simp
  qed
qed

lemma generateProductCode_form:
  assumes "r < 1000000000"
  shows "\<exists>ds. generateProductCode r = ''INV-'' @ ds \<and> length ds = 9 \<and> set ds \<subseteq> set ''0123456789''"
proof -
  have "r < 10 ^ 9" using assms by simp
  then have len: "length (toString r) \<le> 9" by (rule length_toString[rotated]) simp
  let ?ds = "padStart 9 (CHR ''0'') (toString r)"
  have "length ?ds = 9" using len by (simp add: padStart_def)
  moreover have "set ?ds \<subseteq> set ''0123456789''"
    using toString_digits[of r] by (auto simp: padStart_def)
  ultimately show ?thesis by (auto simp: generateProductCode_def)
qed

text \<open>
  The generation loop: a code it returns is not in the store and comes from a draw at or
  after the starting position; it returns as soon as some draw is not in the store.
\<close>

lemma generate_unique_sound:
  assumes "generateUniqueProductCode rnd st i = Some out"
  shows "st (fst out) = None \<and> (\<exists>k\<ge>i. fst out = generateProductCode (rnd k) \<and> snd out = Suc k)"
proof (rule generateUniqueProductCode.raw_induct
    [where P = "\<lambda>rnd st i out. st (fst out) = None \<and>
                  (\<exists>k\<ge>i. fst out = generateProductCode (rnd k) \<and> snd out = Suc k)",
     OF _ assms])
  fix gen :: "(nat \<Rightarrow> nat) \<Rightarrow> (string \<rightharpoonup> Inventory) \<Rightarrow> nat \<Rightarrow> (string \<times> nat) option"
  fix rnd st i out
  assume IH: "\<And>rnd st i out. gen rnd st i = Some out \<Longrightarrow>
                st (fst out) = None \<and> (\<exists>k\<ge>i. fst out = generateProductCode (rnd k) \<and> snd out = Suc k)"
    and eq: "(let code = generateProductCode (rnd i) in
               if findItemById st code = None then Some (code, Suc i) else gen rnd st (Suc i)) = Some out"
  show "st (fst out) = None \<and> (\<exists>k\<ge>i. fst out = generateProductCode (rnd k) \<and> snd out = Suc k)"
  proof (cases "findItemById st (generateProductCode (rnd i)) = None")
    case True
    with eq have "out = (generateProductCode (rnd i), Suc i)" by (simp add: Let_def)
    with True show ?thesis by (auto simp: findItemById_def)
  next
    case False
    with eq have "gen rnd st (Suc i) = Some out" by (simp add: Let_def)
    from IH[OF this] show ?thesis using Suc_leD by blast
  qed
qed

lemma generate_unique_returns:
  "i \<le> k \<Longrightarrow> st (generateProductCode (rnd k)) = None \<Longrightarrow> \<exists>out. generateUniqueProductCode rnd st i = Some out"
proof (induction "k - i" arbitrary: i)
  case 0
  then have "i = k" by simp
  with 0 show ?case
    by (subst generateUniqueProductCode.simps) (simp add: findItemById_def)
next
  case (Suc d)
  then have "Suc i \<le> k" "d = k - Suc i" by simp_all
  with Suc have "\<exists>out. generateUniqueProductCode rnd st (Suc i) = Some out" by blast
  then show ?case
    by (subst generateUniqueProductCode.simps) (simp add: findItemById_def Let_def)
qed

section \<open>Item creation and stock update\<close>

text \<open>What \<^verbatim>\<open>createItem\<close> does from the store write on, for a code that is not in the store.\<close>

lemma createItem_save_free:
  assumes "store w code = None" and "createItem_save brk w code dto = (res, w')"
  shows "store w' = (store w)(code \<mapsto> \<lparr>productCode = code, name = dto_name dto,
                      description = dto_description dto,
                      quantity = dto_quantity dto, price = dto_price dto\<rparr>) \<and>
    (let doc = \<lparr>productCode = code, name = dto_name dto,
                      description = dto_description dto,
                      quantity = dto_quantity dto, price = dto_price dto\<rparr>;
         ev = \<lparr>eventType = STOCK_ADDED, ev_productCode = code, previousQuantity = 0,
               newQuantity = dto_quantity dto, productName = dto_name dto\<rparr> in
     case brk INVENTORY (stockRoutingKey ev) ev of
       None \<Rightarrow> res = Inr doc \<and>
          published w' = published w @ [\<lparr>exchange = INVENTORY, routingKey = stockRoutingKey ev, payload = ev\<rparr>]
     | Some m \<Rightarrow> res = Inl (BrokerError m) \<and> published w' = published w \<and>
          logs w' = logs w @ [LogError (''Failed to publish stock update event: '' @ m) ''InventoryService''])"
  using assms
  by (auto simp add: createItem_save_def repo_createItem_def publishStockUpdateEvent_def Let_def
      logger_log_def logger_error_def split: option.splits)

lemma createItem_generated:
  assumes "dto_productCode dto = None \<or> dto_productCode dto = Some []"
    and "createItem brk rnd w dto = Some (res, w')"
  shows "\<exists>k\<ge>draws w. store w (generateProductCode (rnd k)) = None \<and>
           createItem_save brk (w\<lparr>draws := Suc k\<rparr>) (generateProductCode (rnd k)) dto = (res, w')"
proof -
  from assms obtain code i where g: "generateUniqueProductCode rnd (store w) (draws w) = Some (code, i)"
    and s: "createItem_save brk (w\<lparr>draws := i\<rparr>) code dto = (res, w')"
    by (auto simp: createItem_def split: option.splits)
  from generate_unique_sound[OF g] obtain k where
    "draws w \<le> k" "store w code = None" "code = generateProductCode (rnd k)" "i = Suc k"
    by auto
  with s show ?thesis by blast
qed

lemma createItem_supplied:
  assumes "dto_productCode dto = Some code" and "code \<noteq> []"
  shows "createItem brk rnd w dto =
           Some (if store w code = None then createItem_save brk w code dto
                 else (Inl (ConflictException ''Item with this product code already exists''), w))"
  using assms by (auto simp: createItem_def findItemById_def split: option.splits)

lemma createItem_written:
  assumes "createItem brk rnd w dto = Some (res, w')"
    and "(res, w') \<noteq> (Inl (ConflictException ''Item with this product code already exists''), w)"
  shows "\<exists>code i. store w code = None \<and> createItem_save brk (w\<lparr>draws := i\<rparr>) code dto = (res, w')"
proof (cases "dto_productCode dto = None \<or> dto_productCode dto = Some []")
  case True
  from createItem_generated[OF True assms(1)] show ?thesis by blast
next
  case False
  then obtain code where c: "dto_productCode dto = Some code" "code \<noteq> []" by auto
  from assms createItem_supplied[OF c, of brk rnd w] have free: "store w code = None"
    by (auto split: if_splits)
  with assms(1) createItem_supplied[OF c, of brk rnd w]
  have "createItem_save brk (w\<lparr>draws := draws w\<rparr>) code dto = (res, w')" by simp
  with free show ?thesis by blast
qed

lemma updateStock_existing:
  assumes "store w code = Some item" and "updateStock brk w code q = (res, w')"
  shows "store w' = (store w)(code \<mapsto> item\<lparr>quantity := q\<rparr>) \<and>
    (let ev = \<lparr>eventType = (if q > quantity item then STOCK_ADDED else STOCK_REDUCED),
               ev_productCode = code, previousQuantity = quantity item, newQuantity = q,
               productName = name item\<rparr> in
     case brk INVENTORY (stockRoutingKey ev) ev of
       None \<Rightarrow> res = Inr (Some (item\<lparr>quantity := q\<rparr>)) \<and>
          published w' = published w @ [\<lparr>exchange = INVENTORY, routingKey = stockRoutingKey ev, payload = ev\<rparr>]
     | Some m \<Rightarrow> res = Inl (BrokerError m) \<and> published w' = published w \<and>
          logs w' = logs w @ [LogError (''Failed to publish stock update event: '' @ m) ''InventoryService''])"
  using assms
  by (auto simp add: updateStock_def findItemById_def repo_updateStock_def publishStockUpdateEvent_def
      Let_def logger_log_def logger_error_def split: option.splits)

lemma updateStock_absent:
  "store w code = None \<Longrightarrow> updateStock brk w code q = (Inl (NotFoundException ''Item not found''), w)"
  by (simp add: updateStock_def findItemById_def)

section \<open>The example shop, evaluated\<close>

lemma generateProductCode_1: "generateProductCode (Suc 0) = ''INV-000000001''"
  by code_simp

lemma counting_bound: "counting i < 1000000000"
proof -
  have "i mod 999999999 < 999999999" by simp
  then show ?thesis unfolding counting_def by linarith
qed

lemma generate_in_shop:
  "generateUniqueProductCode counting (store shop) 0 = Some (''INV-000000001'', Suc 0)"
  by (subst generateUniqueProductCode.simps)
     (simp add: counting_def generateProductCode_1 findItemById_def shop_def Let_def)

lemma createItem_in_shop:
  "createItem brk counting shop test_product =
     Some (createItem_save brk (shop\<lparr>draws := Suc 0\<rparr>) ''INV-000000001'' test_product)"
proof -
  have "dto_productCode test_product = None" by (simp add: test_product_def)
  moreover have "draws shop = 0" by (simp add: shop_def)
  ultimately show ?thesis by (simp add: createItem_def generate_in_shop)
qed

lemma createItem_in_shop_up:
  "createItem broker_up counting shop test_product =
     Some (Inr \<lparr>productCode = ''INV-000000001'', name = ''Test Product'',
                description = ''Test Description'', quantity = 100, price = 2999 / 100\<rparr>,
           snd (createItem_save broker_up (shop\<lparr>draws := Suc 0\<rparr>) ''INV-000000001'' test_product))"
  by (simp add: createItem_in_shop)
     (simp add: createItem_save_def repo_createItem_def shop_def test_product_def broker_up_def
        publishStockUpdateEvent_def Let_def logger_log_def)

lemma createItem_in_shop_down:
  "createItem broker_down counting shop test_product =
     Some (Inl (BrokerError ''Channel closed''),
           snd (createItem_save broker_down (shop\<lparr>draws := Suc 0\<rparr>) ''INV-000000001'' test_product))"
  by (simp add: createItem_in_shop)
     (simp add: createItem_save_def repo_createItem_def shop_def test_product_def broker_down_def
        publishStockUpdateEvent_def Let_def logger_error_def)

lemma created_store_in_shop:
  "store (snd (createItem_save brk (shop\<lparr>draws := Suc 0\<rparr>) ''INV-000000001'' test_product))
     = (store shop)(''INV-000000001'' \<mapsto>
          \<lparr>productCode = ''INV-000000001'', name = ''Test Product'',
            description = ''Test Description'', quantity = 100, price = 2999 / 100\<rparr>)"
  by (simp add: createItem_save_def repo_createItem_def shop_def test_product_def
        publishStockUpdateEvent_def Let_def logger_log_def logger_error_def
      split: option.splits)

section \<open>Stock update\<close>

text \<open>
  C10, as the claim states it, does not hold: \<^verbatim>\<open>updateStock\<close> publishes the stock
  event after the store write and before it returns, and a refused publication is thrown
  on. Here the stock of the widget is set to 50 while the broker is down: the store has
  the new quantity, and the call does not return the item but fails.
\<close>

theorem updateStock_no_return_counterexample:
  "store shop ''PROD-1'' = Some widget \<and>
   fst (updateStock broker_down shop ''PROD-1'' 50) = Inl (BrokerError ''Channel closed'') \<and>
   store (snd (updateStock broker_down shop ''PROD-1'' 50)) ''PROD-1''
     = Some (widget\<lparr>quantity := 50\<rparr>)"
  by (simp add: shop_def widget_def broker_down_def updateStock_def findItemById_def
        repo_updateStock_def publishStockUpdateEvent_def Let_def logger_error_def)

text \<open>
  C10, amended. For an existing item, \<^verbatim>\<open>updateStock(productCode, quantity)\<close> leaves in
  the store, under the product code, the item with its quantity set to exactly the
  supplied value, whatever the previous quantity was and whatever the broker does, and
  leaves every other entry of the store as it was. When the broker accepts the stock
  event of the update, the call returns that item; when the broker refuses it, the call
  fails with the error of the broker. Only the quantity of the item differs from before.
\<close>

theorem updateStock_assigns:
  assumes "store w code = Some item" and "updateStock brk w code q = (res, w')"
  shows "store w' code = Some (item\<lparr>quantity := q\<rparr>) \<and>
         (\<forall>other. other \<noteq> code \<longrightarrow> store w' other = store w other) \<and>
         (let ev = \<lparr>eventType = (if q > quantity item then STOCK_ADDED else STOCK_REDUCED),
                    ev_productCode = code, previousQuantity = quantity item, newQuantity = q,
                    productName = name item\<rparr> in
          case brk INVENTORY (stockRoutingKey ev) ev of
            None \<Rightarrow> res = Inr (Some (item\<lparr>quantity := q\<rparr>))
          | Some m \<Rightarrow> res = Inl (BrokerError m)) \<and>
         productCode (item\<lparr>quantity := q\<rparr>) = productCode item \<and>
         name (item\<lparr>quantity := q\<rparr>) = name item \<and>
         description (item\<lparr>quantity := q\<rparr>) = description item \<and>
         price (item\<lparr>quantity := q\<rparr>) = price item \<and>
         quantity (item\<lparr>quantity := q\<rparr>) = q"
proof -
  define ev where "ev = \<lparr>eventType = (if q > quantity item then STOCK_ADDED else STOCK_REDUCED),
               ev_productCode = code, previousQuantity = quantity item, newQuantity = q,
               productName = name item\<rparr>"
  from updateStock_existing[OF assms]
  have e: "store w' = (store w)(code \<mapsto> item\<lparr>quantity := q\<rparr>) \<and>
           (case brk INVENTORY (stockRoutingKey ev) ev of
              None \<Rightarrow> res = Inr (Some (item\<lparr>quantity := q\<rparr>)) \<and>
                published w' = published w @
                  [\<lparr>exchange = INVENTORY, routingKey = stockRoutingKey ev, payload = ev\<rparr>]
            | Some m \<Rightarrow> res = Inl (BrokerError m) \<and> published w' = published w \<and>
                logs w' = logs w @
                  [LogError (''Failed to publish stock update event: '' @ m) ''InventoryService''])"
    unfolding Let_def ev_def .
  then have st: "store w' = (store w)(code \<mapsto> item\<lparr>quantity := q\<rparr>)" by simp
  have r: "case brk INVENTORY (stockRoutingKey ev) ev of
             None \<Rightarrow> res = Inr (Some (item\<lparr>quantity := q\<rparr>))
           | Some m \<Rightarrow> res = Inl (BrokerError m)"
    using e by (cases "brk INVENTORY (stockRoutingKey ev) ev") simp_all
  from st have "store w' code = Some (item\<lparr>quantity := q\<rparr>)"
    and "\<forall>other. other \<noteq> code \<longrightarrow> store w' other = store w other" by simp_all
  with r show ?thesis unfolding Let_def ev_def by simp
qed

theorem updateStock_assigns_witness:
  "store shop ''PROD-1'' = Some widget \<and>
   fst (updateStock broker_up shop ''PROD-1'' 50) = Inr (Some (widget\<lparr>quantity := 50\<rparr>)) \<and>
   store (snd (updateStock broker_up shop ''PROD-1'' 50)) ''PROD-1'' = Some (widget\<lparr>quantity := 50\<rparr>) \<and>
   store (snd (updateStock broker_up shop ''PROD-1'' 50)) ''PROD-2'' = store shop ''PROD-2''"
proof -
  have s: "store shop ''PROD-1'' = Some widget" by (simp add: shop_def)
  from updateStock_assigns [OF s, of broker_up 50
      "fst (updateStock broker_up shop ''PROD-1'' 50)" "snd (updateStock broker_up shop ''PROD-1'' 50)"] s
  show ?thesis by (simp add: broker_up_def Let_def)
qed

section \<open>Stock events\<close>

text \<open>
  C7, as the claim states it, does not hold: a stock update to the quantity the item
  already has succeeds and emits \<^verbatim>\<open>STOCK_REDUCED\<close>, although the new quantity is
  greater than or equal to the previous one. Here the 100 widgets are set to 100.
\<close>

theorem updateStock_equal_quantity_counterexample:
  "fst (updateStock broker_up shop ''PROD-1'' 100) = Inr (Some widget) \<and>
   map payload (published (snd (updateStock broker_up shop ''PROD-1'' 100)))
     = [\<lparr>eventType = STOCK_REDUCED, ev_productCode = ''PROD-1'', previousQuantity = 100,
         newQuantity = 100, productName = ''Widget''\<rparr>]"
  by (simp add: shop_def widget_def broker_up_def updateStock_def findItemById_def
        repo_updateStock_def publishStockUpdateEvent_def Let_def logger_log_def)

text \<open>
  C7, amended. An \<^verbatim>\<open>updateStock\<close> call that succeeds, or that emits an event at all,
  has written the new quantity to the store and has emitted exactly one event, of type
  \<^verbatim>\<open>STOCK_ADDED\<close> when the new quantity is strictly greater than the previous one and
  \<^verbatim>\<open>STOCK_REDUCED\<close> otherwise, also when the two are equal. A \<^verbatim>\<open>createItem\<close> call that
  succeeds, or that emits an event at all, has written the item to the store and has
  emitted exactly one event, of type \<^verbatim>\<open>STOCK_ADDED\<close> with previous quantity 0. When the
  store rejects the write of \<^verbatim>\<open>createItem\<close>, nothing is emitted.
\<close>

theorem stock_event_type:
  "(updateStock brk w code q = (res, w') \<and> ((\<exists>r. res = Inr r) \<or> published w' \<noteq> published w) \<longrightarrow>
      (\<exists>item. store w code = Some item \<and> store w' code = Some (item\<lparr>quantity := q\<rparr>) \<and>
         map payload (published w') = map payload (published w) @
           [\<lparr>eventType = (if q > quantity item then STOCK_ADDED else STOCK_REDUCED),
             ev_productCode = code, previousQuantity = quantity item, newQuantity = q,
             productName = name item\<rparr>])) \<and>
   (createItem brk rnd w dto = Some (resC, wC) \<and>
      ((\<exists>saved. resC = Inr saved) \<or> published wC \<noteq> published w) \<longrightarrow>
      (\<exists>saved. resC = Inr saved \<and> store w (productCode saved) = None \<and>
         store wC (productCode saved) = Some saved \<and>
         map payload (published wC) = map payload (published w) @
           [\<lparr>eventType = STOCK_ADDED, ev_productCode = productCode saved, previousQuantity = 0,
             newQuantity = quantity saved, productName = name saved\<rparr>])) \<and>
   (repo_createItem (store w) codeS dto = Inl e \<longrightarrow>
      createItem_save brk w codeS dto = (Inl e, w))"
proof (intro conjI impI)
  assume a: "updateStock brk w code q = (res, w') \<and> ((\<exists>r. res = Inr r) \<or> published w' \<noteq> published w)"
  then have u: "updateStock brk w code q = (res, w')" by simp
  show "\<exists>item. store w code = Some item \<and> store w' code = Some (item\<lparr>quantity := q\<rparr>) \<and>
         map payload (published w') = map payload (published w) @
           [\<lparr>eventType = (if q > quantity item then STOCK_ADDED else STOCK_REDUCED),
             ev_productCode = code, previousQuantity = quantity item, newQuantity = q,
             productName = name item\<rparr>]"
  proof (cases "store w code")
    case None
    from updateStock_absent[OF None, of brk q] a show ?thesis by auto
  next
    case (Some item)
    from updateStock_existing[OF Some u] Some a show ?thesis
      by (auto simp: Let_def split: option.splits)
  qed
next
  assume a: "createItem brk rnd w dto = Some (resC, wC) \<and>
      ((\<exists>saved. resC = Inr saved) \<or> published wC \<noteq> published w)"
  then have c: "createItem brk rnd w dto = Some (resC, wC)"
    and n: "(resC, wC) \<noteq> (Inl (ConflictException ''Item with this product code already exists''), w)"
    by auto
  from createItem_written[OF c n] obtain code i where
    free: "store w code = None" and s: "createItem_save brk (w\<lparr>draws := i\<rparr>) code dto = (resC, wC)"
    by blast
  let ?doc = "\<lparr>productCode = code, name = dto_name dto, description = dto_description dto,
                quantity = dto_quantity dto, price = dto_price dto\<rparr>"
  let ?ev = "\<lparr>eventType = STOCK_ADDED, ev_productCode = code, previousQuantity = 0,
               newQuantity = dto_quantity dto, productName = dto_name dto\<rparr>"
  from free have "store (w\<lparr>draws := i\<rparr>) code = None" by simp
  from createItem_save_free[OF this s] a
  have "resC = Inr ?doc \<and> store wC = (store w)(code \<mapsto> ?doc) \<and>
        published wC = published w @
          [\<lparr>exchange = INVENTORY, routingKey = stockRoutingKey ?ev, payload = ?ev\<rparr>]"
    by (auto simp: Let_def split: option.splits)
  with free
  show "\<exists>saved. resC = Inr saved \<and> store w (productCode saved) = None \<and>
         store wC (productCode saved) = Some saved \<and>
         map payload (published wC) = map payload (published w) @
           [\<lparr>eventType = STOCK_ADDED, ev_productCode = productCode saved, previousQuantity = 0,
             newQuantity = quantity saved, productName = name saved\<rparr>]"
    by (intro exI[of _ ?doc]) simp
next
  assume "repo_createItem (store w) codeS dto = Inl e"
  then show "createItem_save brk w codeS dto = (Inl e, w)"
    by (simp add: createItem_save_def)
qed

theorem stock_event_type_witness:
  "map payload (published (snd (updateStock broker_up shop ''PROD-1'' 150)))
     = [\<lparr>eventType = STOCK_ADDED, ev_productCode = ''PROD-1'', previousQuantity = 100,
         newQuantity = 150, productName = ''Widget''\<rparr>] \<and>
   map payload (published (snd (updateStock broker_up shop ''PROD-1'' 99)))
     = [\<lparr>eventType = STOCK_REDUCED, ev_productCode = ''PROD-1'', previousQuantity = 100,
         newQuantity = 99, productName = ''Widget''\<rparr>] \<and>
   map_option (\<lambda>out. map payload (published (snd out)))
       (createItem broker_up counting shop test_product)
     = Some [\<lparr>eventType = STOCK_ADDED, ev_productCode = ''INV-000000001'', previousQuantity = 0,
              newQuantity = 100, productName = ''Test Product''\<rparr>] \<and>
   createItem_save broker_up shop ''PROD-1'' test_product
     = (Inl (DuplicateKeyError ''PROD-1''), shop)"
  using
    stock_event_type [where brk = broker_up and w = shop and code = "''PROD-1''" and q = 150
      and res = "fst (updateStock broker_up shop ''PROD-1'' 150)"
      and w' = "snd (updateStock broker_up shop ''PROD-1'' 150)"
      and rnd = counting and dto = test_product
      and resC = "fst (the (createItem broker_up counting shop test_product))"
      and wC = "snd (the (createItem broker_up counting shop test_product))"
      and codeS = "''PROD-1''" and e = "DuplicateKeyError ''PROD-1''"]
    stock_event_type [where brk = broker_up and w = shop and code = "''PROD-1''" and q = 99
      and res = "fst (updateStock broker_up shop ''PROD-1'' 99)"
      and w' = "snd (updateStock broker_up shop ''PROD-1'' 99)"]
  by (simp add: createItem_in_shop_up)
     (simp add: shop_def widget_def broker_up_def updateStock_def findItemById_def
        repo_updateStock_def repo_createItem_def publishStockUpdateEvent_def Let_def logger_log_def)

section \<open>Failure of the event publication\<close>

text \<open>
  C8. Let \<^verbatim>\<open>createItem\<close> reach the store write with a product code: the code the
  caller supplied, which is not in the store, or the code the generation loop has
  returned. When the broker refuses the stock event of the item, the call fails with the
  error of the broker, which is also logged, nothing is published, and the store
  afterwards is the store before the call with the item added under the code. When
  \<^verbatim>\<open>updateStock\<close> finds the item and the broker refuses the stock event of the update,
  the call fails with the error of the broker, which is also logged, nothing is
  published, and the store keeps the item with its new quantity.
\<close>

theorem publication_failure_keeps_write:
  "(((dto_productCode dto = Some code \<and> code \<noteq> [] \<and> store w code = None) \<or>
     ((dto_productCode dto = None \<or> dto_productCode dto = Some []) \<and>
      generateUniqueProductCode rnd (store w) (draws w) = Some (code, i))) \<and>
    brk INVENTORY
      (stockRoutingKey \<lparr>eventType = STOCK_ADDED, ev_productCode = code, previousQuantity = 0,
                         newQuantity = dto_quantity dto, productName = dto_name dto\<rparr>)
      \<lparr>eventType = STOCK_ADDED, ev_productCode = code, previousQuantity = 0,
        newQuantity = dto_quantity dto, productName = dto_name dto\<rparr> = Some m \<longrightarrow>
      (\<exists>w'. createItem brk rnd w dto = Some (Inl (BrokerError m), w') \<and>
        store w' = (store w)(code \<mapsto> \<lparr>productCode = code, name = dto_name dto,
                      description = dto_description dto, quantity = dto_quantity dto,
                      price = dto_price dto\<rparr>) \<and>
        published w' = published w \<and>
        logs w' = logs w @
          [LogError (''Failed to publish stock update event: '' @ m) ''InventoryService''])) \<and>
   (updateStock brk w codeU q = (resU, wU) \<and> store w codeU = Some item \<and>
    brk INVENTORY
      (stockRoutingKey \<lparr>eventType = (if q > quantity item then STOCK_ADDED else STOCK_REDUCED),
                         ev_productCode = codeU, previousQuantity = quantity item,
                         newQuantity = q, productName = name item\<rparr>)
      \<lparr>eventType = (if q > quantity item then STOCK_ADDED else STOCK_REDUCED),
        ev_productCode = codeU, previousQuantity = quantity item, newQuantity = q,
        productName = name item\<rparr> = Some mU \<longrightarrow>
      resU = Inl (BrokerError mU) \<and>
      store wU = (store w)(codeU \<mapsto> item\<lparr>quantity := q\<rparr>) \<and>
      published wU = published w \<and>
      logs wU = logs w @
        [LogError (''Failed to publish stock update event: '' @ mU) ''InventoryService''])"
proof (rule conjI; rule impI)
  let ?doc = "\<lparr>productCode = code, name = dto_name dto, description = dto_description dto,
                quantity = dto_quantity dto, price = dto_price dto\<rparr>"
  let ?ev = "\<lparr>eventType = STOCK_ADDED, ev_productCode = code, previousQuantity = 0,
               newQuantity = dto_quantity dto, productName = dto_name dto\<rparr>"
  assume a: "((dto_productCode dto = Some code \<and> code \<noteq> [] \<and> store w code = None) \<or>
     ((dto_productCode dto = None \<or> dto_productCode dto = Some []) \<and>
      generateUniqueProductCode rnd (store w) (draws w) = Some (code, i))) \<and>
    brk INVENTORY (stockRoutingKey ?ev) ?ev = Some m"
  then have refused: "brk INVENTORY (stockRoutingKey ?ev) ?ev = Some m" by simp
  from a have "(dto_productCode dto = Some code \<and> code \<noteq> [] \<and> store w code = None) \<or>
     ((dto_productCode dto = None \<or> dto_productCode dto = Some []) \<and>
      generateUniqueProductCode rnd (store w) (draws w) = Some (code, i))"
    by (rule conjunct1)
  then consider
      (supplied) "dto_productCode dto = Some code" "code \<noteq> []" "store w code = None"
    | (generated) "dto_productCode dto = None \<or> dto_productCode dto = Some []"
        "generateUniqueProductCode rnd (store w) (draws w) = Some (code, i)"
    by argo
  then obtain w0 where free: "store w0 code = None"
    and same: "store w0 = store w" "published w0 = published w" "logs w0 = logs w"
    and call: "createItem brk rnd w dto = Some (createItem_save brk w0 code dto)"
  proof cases
    case supplied
    from createItem_supplied[OF supplied(1,2), of brk rnd w] supplied(3)
    have "createItem brk rnd w dto = Some (createItem_save brk w code dto)" by simp
    with supplied(3) show ?thesis by (intro that[of w]) simp_all
  next
    case generated
    from generate_unique_sound[OF generated(2)] have f: "store w code = None" by simp
    from generated have "createItem brk rnd w dto
        = Some (createItem_save brk (w\<lparr>draws := i\<rparr>) code dto)"
      by (auto simp: createItem_def)
    with f show ?thesis by (intro that[of "w\<lparr>draws := i\<rparr>"]) simp_all
  qed
  obtain res w' where s: "createItem_save brk w0 code dto = (res, w')"
    by (cases "createItem_save brk w0 code dto")
  from createItem_save_free[OF free s] refused same
  have "res = Inl (BrokerError m) \<and> store w' = (store w)(code \<mapsto> ?doc) \<and>
        published w' = published w \<and>
        logs w' = logs w @
          [LogError (''Failed to publish stock update event: '' @ m) ''InventoryService'']"
    by (simp add: Let_def)
  with call s
  show "\<exists>w'. createItem brk rnd w dto = Some (Inl (BrokerError m), w') \<and>
        store w' = (store w)(code \<mapsto> ?doc) \<and>
        published w' = published w \<and>
        logs w' = logs w @
          [LogError (''Failed to publish stock update event: '' @ m) ''InventoryService'']"
    by simp
next
  let ?ev = "\<lparr>eventType = (if q > quantity item then STOCK_ADDED else STOCK_REDUCED),
               ev_productCode = codeU, previousQuantity = quantity item, newQuantity = q,
               productName = name item\<rparr>"
  assume a: "updateStock brk w codeU q = (resU, wU) \<and> store w codeU = Some item \<and>
             brk INVENTORY (stockRoutingKey ?ev) ?ev = Some mU"
  then have u: "updateStock brk w codeU q = (resU, wU)" and s: "store w codeU = Some item"
    by auto
  from updateStock_existing[OF s u] a
  show "resU = Inl (BrokerError mU) \<and> store wU = (store w)(codeU \<mapsto> item\<lparr>quantity := q\<rparr>) \<and>
        published wU = published w \<and>
        logs wU = logs w @
          [LogError (''Failed to publish stock update event: '' @ mU) ''InventoryService'']"
    by (simp add: Let_def)
qed

theorem publication_failure_keeps_write_witness:
  "map_option fst (createItem broker_down counting shop test_product)
     = Some (Inl (BrokerError ''Channel closed'')) \<and>
   map_option (\<lambda>out. store (snd out) ''INV-000000001'')
       (createItem broker_down counting shop test_product)
     = Some (Some \<lparr>productCode = ''INV-000000001'', name = ''Test Product'',
                    description = ''Test Description'', quantity = 100,
                    price = 2999 / 100\<rparr>) \<and>
   map_option (\<lambda>out. store (snd out) ''PROD-1'')
       (createItem broker_down counting shop test_product) = Some (Some widget) \<and>
   fst (updateStock broker_down shop ''PROD-1'' 50) = Inl (BrokerError ''Channel closed'') \<and>
   store (snd (updateStock broker_down shop ''PROD-1'' 50)) ''PROD-1''
     = Some (widget\<lparr>quantity := 50\<rparr>)"
proof -
  have g: "generateUniqueProductCode counting (store shop) (draws shop)
             = Some (''INV-000000001'', Suc 0)"
    using generate_in_shop by (simp add: shop_def)
  have n: "dto_productCode test_product = None" by (simp add: test_product_def)
  have s: "store shop ''PROD-1'' = Some widget" by (simp add: shop_def)
  from publication_failure_keeps_write [where brk = broker_down and rnd = counting and w = shop
      and dto = test_product and code = "''INV-000000001''" and i = "Suc 0"
      and m = "''Channel closed''"
      and codeU = "''PROD-1''" and q = 50 and item = widget and mU = "''Channel closed''"
      and resU = "fst (updateStock broker_down shop ''PROD-1'' 50)"
      and wU = "snd (updateStock broker_down shop ''PROD-1'' 50)"] g n s
  show ?thesis
    by (auto simp: broker_down_def test_product_def)
qed

section \<open>Generated product codes\<close>

text \<open>
  C9. Let \<^verbatim>\<open>createItem\<close> be called without a product code (none at all, or the empty
  string), with a random source whose values are below 1000000000, as those of
  \<^verbatim>\<open>Math.floor(Math.random() * 1000000000)\<close> are. Whenever the call returns the created
  item, looking up the product code of that item yields the very item, with the name,
  quantity and price of the request; the code is \<^verbatim>\<open>INV-\<close> followed by 9 decimal digits,
  and it was not in the store before the call. The call does return when some draw of
  the random source from the current position on gives a code that is not in the store.
\<close>

theorem createItem_generated_roundtrip:
  assumes nocode: "dto_productCode dto = None \<or> dto_productCode dto = Some []"
    and range: "\<forall>i. rnd i < 1000000000"
  shows "(\<forall>saved w'. createItem brk rnd w dto = Some (Inr saved, w') \<longrightarrow>
            fst (getItem w' (productCode saved)) = Inr saved \<and>
            name saved = dto_name dto \<and> quantity saved = dto_quantity dto \<and>
            price saved = dto_price dto \<and>
            (\<exists>ds. productCode saved = ''INV-'' @ ds \<and> length ds = 9 \<and>
                  set ds \<subseteq> set ''0123456789'') \<and>
            store w (productCode saved) = None) \<and>
         ((\<exists>k\<ge>draws w. store w (generateProductCode (rnd k)) = None) \<longrightarrow>
            (\<exists>res w'. createItem brk rnd w dto = Some (res, w')))"
proof (intro conjI allI impI)
  fix saved w'
  assume c: "createItem brk rnd w dto = Some (Inr saved, w')"
  from createItem_generated[OF nocode c] obtain k where
    free: "store w (generateProductCode (rnd k)) = None"
    and s: "createItem_save brk (w\<lparr>draws := Suc k\<rparr>) (generateProductCode (rnd k)) dto = (Inr saved, w')"
    by blast
  from free have "store (w\<lparr>draws := Suc k\<rparr>) (generateProductCode (rnd k)) = None" by simp
  from createItem_save_free[OF this s]
  have saved: "saved = \<lparr>productCode = generateProductCode (rnd k), name = dto_name dto,
                      description = dto_description dto,
                      quantity = dto_quantity dto, price = dto_price dto\<rparr>"
    and st: "store w' (generateProductCode (rnd k)) = Some saved"
    by (auto simp: Let_def split: option.splits)
  from range have "rnd k < 1000000000" by simp
  from generateProductCode_form[OF this] saved
  show "\<exists>ds. productCode saved = ''INV-'' @ ds \<and> length ds = 9 \<and> set ds \<subseteq> set ''0123456789''"
    by simp
  from saved st show "fst (getItem w' (productCode saved)) = Inr saved"
    by (simp add: getItem_def findItemById_def)
  from saved show "name saved = dto_name dto" "quantity saved = dto_quantity dto"
    "price saved = dto_price dto" by simp_all
  from saved free show "store w (productCode saved) = None" by simp
next
  assume "\<exists>k\<ge>draws w. store w (generateProductCode (rnd k)) = None"
  then obtain k where "draws w \<le> k" "store w (generateProductCode (rnd k)) = None" by blast
  from generate_unique_returns[of "draws w" k "store w" rnd, OF this] obtain out where
    "generateUniqueProductCode rnd (store w) (draws w) = Some out" by blast
  with nocode show "\<exists>res w'. createItem brk rnd w dto = Some (res, w')"
    by (cases out) (auto simp: createItem_def)
qed

theorem createItem_generated_roundtrip_witness:
  "dto_productCode test_product = None \<and> (\<forall>i. counting i < 1000000000) \<and>
   map_option fst (createItem broker_up counting shop test_product)
     = Some (Inr \<lparr>productCode = ''INV-000000001'', name = ''Test Product'',
                   description = ''Test Description'', quantity = 100,
                   price = 2999 / 100\<rparr>) \<and>
   map_option (\<lambda>out. fst (getItem (snd out) ''INV-000000001''))
       (createItem broker_up counting shop test_product)
     = Some (Inr \<lparr>productCode = ''INV-000000001'', name = ''Test Product'',
                   description = ''Test Description'', quantity = 100,
                   price = 2999 / 100\<rparr>) \<and>
   store shop ''INV-000000001'' = None"
proof -
  have nocode: "dto_productCode test_product = None \<or> dto_productCode test_product = Some []"
    by (simp add: test_product_def)
  have range: "\<forall>i. counting i < 1000000000" by (simp add: counting_bound)
  from createItem_generated_roundtrip [OF nocode range, of broker_up shop] nocode range
  show ?thesis
    by (simp add: createItem_in_shop_up) (simp add: shop_def test_product_def)
qed

section \<open>Stock is never negative\<close>

lemma deductStock_store:
  "store (snd (deductStock brk w code q)) =
     (case store w code of
        None \<Rightarrow> store w
      | Some item \<Rightarrow>
          if quantity item < q then store w
          else (store w)(code \<mapsto> item\<lparr>quantity := js_sub (quantity item) q\<rparr>))"
  by (simp add: deductStock_def getItem_def findItemById_def Let_def publish_store logger_log_def
      split: option.splits)

text \<open>
  One request keeps the stock non-negative: item creation and stock update store the
  quantity they are given, which the validation has let through; a deduction is refused
  when the stock is below the requested quantity, whatever that quantity is, and the
  rounding of a difference that is not negative is not negative.
\<close>

lemma perform_nonneg:
  assumes "stock_nonneg (store w)" and "perform brk rnd w oper = Some w'"
  shows "stock_nonneg (store w')"
proof (cases "validated oper")
  case False
  with assms show ?thesis by (simp add: perform_def)
next
  case valid: True
  show ?thesis
  proof (cases oper)
    case (CreateItem dto)
    with assms(2) valid obtain res where c: "createItem brk rnd w dto = Some (res, w')"
      by (auto simp: perform_def)
    show ?thesis
    proof (cases "store w' = store w")
      case True
      with assms(1) show ?thesis by simp
    next
      case False
      then have "(res, w') \<noteq> (Inl (ConflictException ''Item with this product code already exists''), w)"
        by auto
      from createItem_written[OF c this] obtain code i where
        free: "store w code = None" and s: "createItem_save brk (w\<lparr>draws := i\<rparr>) code dto = (res, w')"
        by blast
      from free have "store (w\<lparr>draws := i\<rparr>) code = None" by simp
      from createItem_save_free[OF this s] assms(1) valid CreateItem show ?thesis
        by (auto simp: stock_nonneg_def)
    qed
  next
    case (UpdateStock code q)
    then have u: "updateStock brk w code q = (fst (updateStock brk w code q), w')"
      using assms(2) valid by (auto simp: perform_def)
    show ?thesis
    proof (cases "store w code")
      case None
      from updateStock_absent[OF None, of brk q] u assms(1) show ?thesis by simp
    next
      case (Some item)
      from updateStock_existing[OF Some u] assms(1) valid UpdateStock show ?thesis
        by (auto simp: stock_nonneg_def)
    qed
  next
    case (DeductStock code q)
    then have w': "w' = snd (deductStock brk w code q)"
      using assms(2) by (auto simp: perform_def)
    show ?thesis
    proof (cases "store w code")
      case None
      with w' assms(1) show ?thesis by (simp add: deductStock_store)
    next
      case (Some item)
      have "\<not> quantity item < q \<Longrightarrow> 0 \<le> js_sub (quantity item) q"
        unfolding js_sub_def by (rule js_round_nonneg) simp
      with Some w' assms(1) show ?thesis
        by (cases "quantity item < q") (auto simp: deductStock_store stock_nonneg_def)
    qed
  qed
qed

text \<open>
  C6. Starting from a store in which no quantity is negative, after every sequence of
  \<^verbatim>\<open>createItem\<close>, \<^verbatim>\<open>updateStock\<close> and \<^verbatim>\<open>deductStock\<close> requests, whatever each of
  them returns or throws, no item of the store has a negative quantity. A quantity is
  an integer by its type. The service methods store the quantity they are given; the
  negative ones are kept out by the validation of the requests, and a deduction by its
  own stock guard.
\<close>

theorem stock_never_negative:
  "stock_nonneg (store w) \<Longrightarrow> run_ops brk rnd w ops = Some w' \<Longrightarrow> stock_nonneg (store w')"
proof (induction ops arbitrary: w)
  case Nil
  then show ?case by simp
next
  case (Cons oper ops)
  from Cons.prems(2) obtain w1 where p: "perform brk rnd w oper = Some w1"
    and r: "run_ops brk rnd w1 ops = Some w'"
    by (auto split: option.splits)
  from perform_nonneg[OF Cons.prems(1) p] have "stock_nonneg (store w1)" .
  from Cons.IH[OF this r] show ?case .
qed

theorem stock_never_negative_witness:
  "stock_nonneg (store shop) \<and>
   (\<exists>w'. run_ops broker_up counting shop
            [CreateItem test_product, UpdateStock ''PROD-1'' 50, UpdateStock ''PROD-1'' (- 10),
             DeductStock ''PROD-1'' 20, DeductStock ''PROD-1'' 31, DeductStock ''PROD-1'' (- 5)]
          = Some w' \<and>
          stock_nonneg (store w') \<and>
          map_option quantity (store w' ''PROD-1'') = Some 35)"
proof -
  let ?ops = "[CreateItem test_product, UpdateStock ''PROD-1'' 50, UpdateStock ''PROD-1'' (- 10),
               DeductStock ''PROD-1'' 20, DeductStock ''PROD-1'' 31, DeductStock ''PROD-1'' (- 5)]"
  have init: "stock_nonneg (store shop)"
    by (auto simp: stock_nonneg_def shop_def widget_def split: if_splits)
  have valid: "0 \<le> dto_quantity test_product" "0 \<le> dto_price test_product"
    by (simp_all add: test_product_def)
  obtain w' where run: "run_ops broker_up counting shop ?ops = Some w'"
    by (simp add: perform_def createItem_in_shop_up valid)
  have "map_option (\<lambda>w'. map_option quantity (store w' ''PROD-1''))
          (run_ops broker_up counting shop ?ops) = Some (Some 35)"
    by (simp add: perform_def createItem_in_shop_up valid)
       (simp add: createItem_save_def repo_createItem_def shop_def test_product_def broker_up_def
          widget_def updateStock_def deductStock_def getItem_def findItemById_def
          repo_updateStock_def publishStockUpdateEvent_def Let_def logger_log_def
          js_sub_def js_add_def js_round_exact)
  with run have q: "map_option quantity (store w' ''PROD-1'') = Some 35" by simp
  from stock_never_negative [OF init run] init run q show ?thesis by blast
qed

section \<open>Order creation\<close>

text \<open>
  C1. Let the stock-check RPC of a \<^verbatim>\<open>createOrder(productCode, quantity)\<close> call be
  answered with stock available and the stock-deduct RPC with success. Then every order
  the call returns has status \<^verbatim>\<open>CONFIRMED\<close> and a total price of the quantity times the
  unit price of the stock-check reply, carries the product code and quantity of the
  request and the next identifier of the store, and is the order appended to the persisted
  ones. The call does return an
  order when the request is valid and the order store accepts the write.
\<close>

theorem createOrder_confirmed:
  assumes "check_rpc up code qty = Reply chk" and "chk_available chk"
    and "deduct_rpc up code qty = Reply DeductOk"
    and "createOrder up st code qty = (res, st')"
  shows "(\<forall>order. res = Inr order \<longrightarrow>
            status order = CONFIRMED \<and> totalPrice order = of_int qty * chk_unitPrice chk \<and>
            order_productCode order = code \<and> order_quantity order = qty \<and>
            order_id order = length (orders st) \<and> orders st' = orders st @ [order]) \<and>
         (0 < qty \<and> code \<noteq> [] \<and>
          persist_ok up \<lparr>order_id = length (orders st), order_productCode = code,
                          order_quantity = qty, totalPrice = of_int qty * chk_unitPrice chk,
                          status = CONFIRMED\<rparr> \<longrightarrow> (\<exists>order. res = Inr order))"
  using assms
  by (auto simp: createOrder_def Let_def split: if_splits)

theorem createOrder_confirmed_witness:
  "check_rpc healthy ''PROD-1'' 2 = Reply in_stock \<and> chk_available in_stock \<and>
   deduct_rpc healthy ''PROD-1'' 2 = Reply DeductOk \<and>
   fst (createOrder healthy no_orders ''PROD-1'' 2)
     = Inr \<lparr>order_id = 0, order_productCode = ''PROD-1'', order_quantity = 2,
             totalPrice = 200, status = CONFIRMED\<rparr> \<and>
   orders (snd (createOrder healthy no_orders ''PROD-1'' 2))
     = [\<lparr>order_id = 0, order_productCode = ''PROD-1'', order_quantity = 2,
          totalPrice = 200, status = CONFIRMED\<rparr>]"
proof -
  have c: "check_rpc healthy ''PROD-1'' 2 = Reply in_stock"
    by (simp add: healthy_def check_in_stock_def)
  have a: "chk_available in_stock" by (simp add: in_stock_def)
  have d: "deduct_rpc healthy ''PROD-1'' 2 = Reply DeductOk"
    by (simp add: healthy_def deduct_succeeds_def)
  have p: "persist_ok healthy order" for order
    by (simp add: healthy_def store_accepts_def)
  have u: "chk_unitPrice in_stock = 100" by (simp add: in_stock_def)
  from createOrder_confirmed [OF c a d, of no_orders
      "fst (createOrder healthy no_orders ''PROD-1'' 2)"
      "snd (createOrder healthy no_orders ''PROD-1'' 2)"] c a d
  show ?thesis
    by (simp add: createOrder_def no_orders_def Let_def p u)
qed

text \<open>
  C2. A \<^verbatim>\<open>createOrder(productCode, quantity)\<close> call with a quantity of zero or less,
  or with an empty product code, fails with the validation error; the broker client has
  received no call for it, and no order is persisted.
\<close>

theorem createOrder_validation:
  "qty \<le> 0 \<or> code = [] \<Longrightarrow>
     fst (createOrder up st code qty) = Inl ValidationError \<and>
     rpc_calls (snd (createOrder up st code qty)) = rpc_calls st \<and>
     orders (snd (createOrder up st code qty)) = orders st"
  by (simp add: createOrder_def)

theorem createOrder_validation_witness:
  "fst (createOrder healthy no_orders '''' 5) = Inl ValidationError \<and>
   rpc_calls (snd (createOrder healthy no_orders '''' 5)) = [] \<and>
   fst (createOrder healthy no_orders ''PROD-1'' (- 1)) = Inl ValidationError \<and>
   rpc_calls (snd (createOrder healthy no_orders ''PROD-1'' (- 1))) = [] \<and>
   fst (createOrder healthy no_orders ''PROD-1'' 0) = Inl ValidationError \<and>
   rpc_calls (snd (createOrder healthy no_orders ''PROD-1'' 2))
     = [StockCheckCall ''PROD-1'' 2, StockDeductCall ''PROD-1'' 2]"
  using createOrder_validation [of 5 "''''" healthy no_orders]
    createOrder_validation [of "- 1" "''PROD-1''" healthy no_orders]
    createOrder_validation [of 0 "''PROD-1''" healthy no_orders]
  by (simp add: no_orders_def)
     (simp add: createOrder_def healthy_def check_in_stock_def deduct_succeeds_def
        store_accepts_def in_stock_def Let_def)

section \<open>Pending requests\<close>

lemma client_inv_init: "client_inv client_init"
  by (simp add: client_inv_def client_init_def)

lemma client_inv_step:
  assumes "client_inv c"
  shows "client_inv (client_step c e)"
proof (cases e)
  case PublishWithResponse
  with assms show ?thesis
    by (auto simp: client_inv_def lessThan_Suc)
next
  case (ReplyArrives cid p)
  with assms show ?thesis
    by (auto simp: client_inv_def distinct_removeAll)
next
  case (TimeoutExpires cid)
  with assms show ?thesis
    by (auto simp: client_inv_def distinct_removeAll)
qed

lemma client_inv_foldl: "client_inv c \<Longrightarrow> client_inv (foldl client_step c evs)"
  by (induction evs arbitrary: c) (simp_all add: client_inv_step)

lemma client_inv_run: "client_inv (client_run evs)"
  unfolding client_run_def by (rule client_inv_foldl) (rule client_inv_init)

lemma count_distinct_keys:
  "distinct (map fst ds) \<Longrightarrow>
     length (filter (\<lambda>d. fst d = cid) ds) = (if cid \<in> fst ` set ds then 1 else 0)"
  by (induction ds) (auto simp: image_iff)

lemma settlements_inv:
  "client_inv c \<Longrightarrow> settlements c cid = (if cid \<in> fst ` set (delivered c) then 1 else 0)"
  by (simp add: settlements_def client_inv_def count_distinct_keys)

text \<open>
  C5. In every state the client reaches from its start by requests, arriving replies and
  expiring timeouts: no correlation id is registered twice; a caller is settled at most
  once, not at all while its waiter is registered, and exactly once when its id has been
  handed out and is no longer registered; no caller is both resolved and timed out. A
  reply for a registered id removes the waiter and resolves the caller with the payload
  of the reply; the expiry of the timeout of a registered id removes the waiter and
  rejects the caller with the timeout. A reply that arrives for a caller that has been
  timed out changes nothing, and that caller has been settled exactly once.
\<close>

theorem waiter_settled_once:
  "distinct (waiters (client_run evs)) \<and>
   (\<forall>cid. settlements (client_run evs) cid \<le> 1) \<and>
   (\<forall>cid. cid \<in> set (waiters (client_run evs)) \<longrightarrow> settlements (client_run evs) cid = 0) \<and>
   (\<forall>cid. cid < next_correlation (client_run evs) \<and> cid \<notin> set (waiters (client_run evs)) \<longrightarrow>
      settlements (client_run evs) cid = 1) \<and>
   (\<forall>cid p. \<not> ((cid, Resolved p) \<in> set (delivered (client_run evs)) \<and>
              (cid, Rejected_TimedOut) \<in> set (delivered (client_run evs)))) \<and>
   (\<forall>cid p. cid \<in> set (waiters (client_run evs)) \<longrightarrow>
      cid \<notin> set (waiters (client_step (client_run evs) (ReplyArrives cid p))) \<and>
      delivered (client_step (client_run evs) (ReplyArrives cid p))
        = delivered (client_run evs) @ [(cid, Resolved p)]) \<and>
   (\<forall>cid. cid \<in> set (waiters (client_run evs)) \<longrightarrow>
      cid \<notin> set (waiters (client_step (client_run evs) (TimeoutExpires cid))) \<and>
      delivered (client_step (client_run evs) (TimeoutExpires cid))
        = delivered (client_run evs) @ [(cid, Rejected_TimedOut)]) \<and>
   (\<forall>cid p. (cid, Rejected_TimedOut) \<in> set (delivered (client_run evs)) \<longrightarrow>
      client_step (client_run evs) (ReplyArrives cid p) = client_run evs \<and>
      settlements (client_run evs) cid = 1)"
proof -
  define c where "c = client_run evs"
  have inv: "client_inv c" unfolding c_def by (rule client_inv_run)
  have d: "distinct (waiters c)" using inv by (simp add: client_inv_def)
  have dd: "distinct (map fst (delivered c))" using inv by (simp add: client_inv_def)
  have disj: "cid \<in> set (waiters c) \<Longrightarrow> cid \<notin> fst ` set (delivered c)" for cid
    using inv by (auto simp: client_inv_def)
  have cover: "cid < next_correlation c \<Longrightarrow> cid \<notin> set (waiters c) \<Longrightarrow>
                 cid \<in> fst ` set (delivered c)" for cid
    using inv by (auto simp: client_inv_def)
  have s1: "\<forall>cid. settlements c cid \<le> 1" by (simp add: settlements_inv[OF inv])
  have s2: "\<forall>cid. cid \<in> set (waiters c) \<longrightarrow> settlements c cid = 0"
    using disj by (simp add: settlements_inv[OF inv])
  have s3: "\<forall>cid. cid < next_correlation c \<and> cid \<notin> set (waiters c) \<longrightarrow> settlements c cid = 1"
    using cover by (simp add: settlements_inv[OF inv])
  have s4: "\<forall>cid p. \<not> ((cid, Resolved p) \<in> set (delivered c) \<and>
                        (cid, Rejected_TimedOut) \<in> set (delivered c))"
    using dd by (auto dest: eq_key_imp_eq_value)
  have s5: "\<forall>cid p. cid \<in> set (waiters c) \<longrightarrow>
              cid \<notin> set (waiters (client_step c (ReplyArrives cid p))) \<and>
              delivered (client_step c (ReplyArrives cid p)) = delivered c @ [(cid, Resolved p)]"
    by simp
  have s6: "\<forall>cid. cid \<in> set (waiters c) \<longrightarrow>
              cid \<notin> set (waiters (client_step c (TimeoutExpires cid))) \<and>
              delivered (client_step c (TimeoutExpires cid)) = delivered c @ [(cid, Rejected_TimedOut)]"
    by simp
  have s7: "\<forall>cid p. (cid, Rejected_TimedOut) \<in> set (delivered c) \<longrightarrow>
              client_step c (ReplyArrives cid p) = c \<and> settlements c cid = 1"
  proof (intro allI impI)
    fix cid p
    assume m: "(cid, Rejected_TimedOut) \<in> set (delivered c)"
    then have k: "cid \<in> fst ` set (delivered c)" by force
    with disj have "cid \<notin> set (waiters c)" by blast
    with k show "client_step c (ReplyArrives cid p) = c \<and> settlements c cid = 1"
      by (simp add: settlements_inv[OF inv])
  qed
  from d s1 s2 s3 s4 s5 s6 s7 show ?thesis unfolding c_def by blast
qed

lemma late_reply_run_state:
  "client_run late_reply_run
     = \<lparr>waiters = [], next_correlation = 2,
        delivered = [(0, Rejected_TimedOut), (1, Resolved ''ok'')]\<rparr>"
  by (simp add: client_run_def late_reply_run_def client_init_def)

theorem waiter_settled_once_witness:
  "(0, Rejected_TimedOut) \<in> set (delivered (client_run late_reply_run)) \<and>
   client_step (client_run late_reply_run) (ReplyArrives 0 ''late'') = client_run late_reply_run \<and>
   settlements (client_run late_reply_run) 0 = 1 \<and>
   settlements (client_run late_reply_run) 1 = 1 \<and>
   delivered (client_run late_reply_run) = [(0, Rejected_TimedOut), (1, Resolved ''ok'')] \<and>
   1 \<in> set (waiters (client_run (take 3 late_reply_run))) \<and>
   delivered (client_step (client_run (take 3 late_reply_run)) (ReplyArrives 1 ''ok''))
     = delivered (client_run (take 3 late_reply_run)) @ [(1, Resolved ''ok'')]"
proof -
  have t: "client_run (take 3 late_reply_run)
             = \<lparr>waiters = [1], next_correlation = 2, delivered = [(0, Rejected_TimedOut)]\<rparr>"
    by (simp add: client_run_def late_reply_run_def client_init_def)
  from waiter_settled_once [of late_reply_run] waiter_settled_once [of "take 3 late_reply_run"]
  show ?thesis by (simp add: late_reply_run_state t)
qed

end
